theory Spec2Isabelle
  imports Main "HOL-Library.Word"
begin

section \<open>ErrorCodes.h: the error taxonomy\<close>

text \<open>
  \<^verbatim>\<open>enum class ErrorCode : int16_t\<close>: a scoped enumeration with a fixed underlying type,
  so every 16-bit value is a value of the type (\<^verbatim>\<open>static_cast<ErrorCode>(9999)\<close> in the
  tests). The enumerators are constants of that type, in the order of the source.
\<close>

type_synonym ErrorCode = "16 word"

definition OK :: ErrorCode where
  "OK = 0"

definition SUCCESS :: ErrorCode where
  "SUCCESS = 0"

definition UNKNOWN_ERROR :: ErrorCode where
  "UNKNOWN_ERROR = 1"

definition NOT_INITIALIZED :: ErrorCode where
  "NOT_INITIALIZED = 2"

definition ALREADY_INITIALIZED :: ErrorCode where
  "ALREADY_INITIALIZED = 3"

definition INVALID_PARAMETER :: ErrorCode where
  "INVALID_PARAMETER = 4"

definition INVALID_STATE :: ErrorCode where
  "INVALID_STATE = 5"

definition NOT_SUPPORTED :: ErrorCode where
  "NOT_SUPPORTED = 6"

definition NOT_IMPLEMENTED :: ErrorCode where
  "NOT_IMPLEMENTED = 7"

definition BUSY :: ErrorCode where
  "BUSY = 8"

definition WOULD_BLOCK :: ErrorCode where
  "WOULD_BLOCK = 9"

definition OUT_OF_MEMORY :: ErrorCode where
  "OUT_OF_MEMORY = 10"

definition RESOURCE_EXHAUSTED :: ErrorCode where
  "RESOURCE_EXHAUSTED = 11"

definition RESOURCE_NOT_FOUND :: ErrorCode where
  "RESOURCE_NOT_FOUND = 12"

definition RESOURCE_LOCKED :: ErrorCode where
  "RESOURCE_LOCKED = 13"

definition RESOURCE_UNAVAILABLE :: ErrorCode where
  "RESOURCE_UNAVAILABLE = 14"

definition TIMEOUT :: ErrorCode where
  "TIMEOUT = 30"

definition MUTEX_ERROR :: ErrorCode where
  "MUTEX_ERROR = 31"

definition SEMAPHORE_ERROR :: ErrorCode where
  "SEMAPHORE_ERROR = 32"

definition DEADLOCK_DETECTED :: ErrorCode where
  "DEADLOCK_DETECTED = 33"

definition QUEUE_FULL :: ErrorCode where
  "QUEUE_FULL = 34"

definition QUEUE_EMPTY :: ErrorCode where
  "QUEUE_EMPTY = 35"

definition IO_ERROR :: ErrorCode where
  "IO_ERROR = 50"

definition READ_ERROR :: ErrorCode where
  "READ_ERROR = 51"

definition WRITE_ERROR :: ErrorCode where
  "WRITE_ERROR = 52"

definition PERMISSION_DENIED :: ErrorCode where
  "PERMISSION_DENIED = 53"

definition DATA_NOT_READY :: ErrorCode where
  "DATA_NOT_READY = 70"

definition DATA_CORRUPTED :: ErrorCode where
  "DATA_CORRUPTED = 71"

definition CRC_ERROR :: ErrorCode where
  "CRC_ERROR = 72"

definition CHECKSUM_ERROR :: ErrorCode where
  "CHECKSUM_ERROR = 73"

definition BUFFER_OVERFLOW :: ErrorCode where
  "BUFFER_OVERFLOW = 74"

definition BUFFER_UNDERFLOW :: ErrorCode where
  "BUFFER_UNDERFLOW = 75"

definition INVALID_DATA :: ErrorCode where
  "INVALID_DATA = 76"

definition DEVICE_NOT_FOUND :: ErrorCode where
  "DEVICE_NOT_FOUND = 100"

definition DEVICE_ERROR :: ErrorCode where
  "DEVICE_ERROR = 101"

definition DEVICE_BUSY :: ErrorCode where
  "DEVICE_BUSY = 102"

definition DEVICE_DISCONNECTED :: ErrorCode where
  "DEVICE_DISCONNECTED = 103"

definition HARDWARE_FAILURE :: ErrorCode where
  "HARDWARE_FAILURE = 104"

definition COMMUNICATION_ERROR :: ErrorCode where
  "COMMUNICATION_ERROR = 200"

definition CONNECTION_FAILED :: ErrorCode where
  "CONNECTION_FAILED = 201"

definition CONNECTION_LOST :: ErrorCode where
  "CONNECTION_LOST = 202"

definition CONNECTION_REFUSED :: ErrorCode where
  "CONNECTION_REFUSED = 203"

definition PROTOCOL_ERROR :: ErrorCode where
  "PROTOCOL_ERROR = 204"

definition SEND_FAILED :: ErrorCode where
  "SEND_FAILED = 205"

definition RECEIVE_FAILED :: ErrorCode where
  "RECEIVE_FAILED = 206"

definition STORAGE_ERROR :: ErrorCode where
  "STORAGE_ERROR = 300"

definition STORAGE_FULL :: ErrorCode where
  "STORAGE_FULL = 301"

definition FILE_NOT_FOUND :: ErrorCode where
  "FILE_NOT_FOUND = 302"

definition FILE_EXISTS :: ErrorCode where
  "FILE_EXISTS = 303"

definition MOUNT_FAILED :: ErrorCode where
  "MOUNT_FAILED = 304"

definition NETWORK_ERROR :: ErrorCode where
  "NETWORK_ERROR = 400"

definition NETWORK_UNREACHABLE :: ErrorCode where
  "NETWORK_UNREACHABLE = 401"

definition HOST_UNREACHABLE :: ErrorCode where
  "HOST_UNREACHABLE = 402"

definition DNS_FAILED :: ErrorCode where
  "DNS_FAILED = 403"

definition SSL_ERROR :: ErrorCode where
  "SSL_ERROR = 404"

text \<open>Every enumerator the enumeration declares.\<close>

definition ErrorCode_enumerators :: "ErrorCode list" where
  "ErrorCode_enumerators =
    [OK, SUCCESS, UNKNOWN_ERROR, NOT_INITIALIZED,
     ALREADY_INITIALIZED, INVALID_PARAMETER, INVALID_STATE, NOT_SUPPORTED,
     NOT_IMPLEMENTED, BUSY, WOULD_BLOCK, OUT_OF_MEMORY,
     RESOURCE_EXHAUSTED, RESOURCE_NOT_FOUND, RESOURCE_LOCKED, RESOURCE_UNAVAILABLE,
     TIMEOUT, MUTEX_ERROR, SEMAPHORE_ERROR, DEADLOCK_DETECTED,
     QUEUE_FULL, QUEUE_EMPTY, IO_ERROR, READ_ERROR,
     WRITE_ERROR, PERMISSION_DENIED, DATA_NOT_READY, DATA_CORRUPTED,
     CRC_ERROR, CHECKSUM_ERROR, BUFFER_OVERFLOW, BUFFER_UNDERFLOW,
     INVALID_DATA, DEVICE_NOT_FOUND, DEVICE_ERROR, DEVICE_BUSY,
     DEVICE_DISCONNECTED, HARDWARE_FAILURE, COMMUNICATION_ERROR, CONNECTION_FAILED,
     CONNECTION_LOST, CONNECTION_REFUSED, PROTOCOL_ERROR, SEND_FAILED,
     RECEIVE_FAILED, STORAGE_ERROR, STORAGE_FULL, FILE_NOT_FOUND,
     FILE_EXISTS, MOUNT_FAILED, NETWORK_ERROR, NETWORK_UNREACHABLE,
     HOST_UNREACHABLE, DNS_FAILED, SSL_ERROR]"

text \<open>\<^verbatim>\<open>inline const char* errorCodeToString(ErrorCode code)\<close>: a \<^verbatim>\<open>switch\<close> with one
  \<^verbatim>\<open>case\<close> per enumerator (\<^verbatim>\<open>SUCCESS\<close> is the value of \<^verbatim>\<open>OK\<close> and has no case of its own)
  and a \<^verbatim>\<open>default\<close>.\<close>

definition errorCodeToString :: "ErrorCode \<Rightarrow> string" where
  "errorCodeToString code =
    (if code = OK then ''OK''
     else if code = UNKNOWN_ERROR then ''Unknown error''
     else if code = NOT_INITIALIZED then ''Not initialized''
     else if code = ALREADY_INITIALIZED then ''Already initialized''
     else if code = INVALID_PARAMETER then ''Invalid parameter''
     else if code = INVALID_STATE then ''Invalid state''
     else if code = NOT_SUPPORTED then ''Not supported''
     else if code = NOT_IMPLEMENTED then ''Not implemented''
     else if code = BUSY then ''Busy''
     else if code = WOULD_BLOCK then ''Would block''
     else if code = OUT_OF_MEMORY then ''Out of memory''
     else if code = RESOURCE_EXHAUSTED then ''Resource exhausted''
     else if code = RESOURCE_NOT_FOUND then ''Resource not found''
     else if code = RESOURCE_LOCKED then ''Resource locked''
     else if code = RESOURCE_UNAVAILABLE then ''Resource unavailable''
     else if code = TIMEOUT then ''Timeout''
     else if code = MUTEX_ERROR then ''Mutex error''
     else if code = SEMAPHORE_ERROR then ''Semaphore error''
     else if code = DEADLOCK_DETECTED then ''Deadlock detected''
     else if code = QUEUE_FULL then ''Queue full''
     else if code = QUEUE_EMPTY then ''Queue empty''
     else if code = IO_ERROR then ''I/O error''
     else if code = READ_ERROR then ''Read error''
     else if code = WRITE_ERROR then ''Write error''
     else if code = PERMISSION_DENIED then ''Permission denied''
     else if code = DATA_NOT_READY then ''Data not ready''
     else if code = DATA_CORRUPTED then ''Data corrupted''
     else if code = CRC_ERROR then ''CRC error''
     else if code = CHECKSUM_ERROR then ''Checksum error''
     else if code = BUFFER_OVERFLOW then ''Buffer overflow''
     else if code = BUFFER_UNDERFLOW then ''Buffer underflow''
     else if code = INVALID_DATA then ''Invalid data''
     else if code = DEVICE_NOT_FOUND then ''Device not found''
     else if code = DEVICE_ERROR then ''Device error''
     else if code = DEVICE_BUSY then ''Device busy''
     else if code = DEVICE_DISCONNECTED then ''Device disconnected''
     else if code = HARDWARE_FAILURE then ''Hardware failure''
     else if code = COMMUNICATION_ERROR then ''Communication error''
     else if code = CONNECTION_FAILED then ''Connection failed''
     else if code = CONNECTION_LOST then ''Connection lost''
     else if code = CONNECTION_REFUSED then ''Connection refused''
     else if code = PROTOCOL_ERROR then ''Protocol error''
     else if code = SEND_FAILED then ''Send failed''
     else if code = RECEIVE_FAILED then ''Receive failed''
     else if code = STORAGE_ERROR then ''Storage error''
     else if code = STORAGE_FULL then ''Storage full''
     else if code = FILE_NOT_FOUND then ''File not found''
     else if code = FILE_EXISTS then ''File exists''
     else if code = MOUNT_FAILED then ''Mount failed''
     else if code = NETWORK_ERROR then ''Network error''
     else if code = NETWORK_UNREACHABLE then ''Network unreachable''
     else if code = HOST_UNREACHABLE then ''Host unreachable''
     else if code = DNS_FAILED then ''DNS failed''
     else if code = SSL_ERROR then ''SSL error''
     else ''Unknown error code'')"

text \<open>\<^verbatim>\<open>constexpr bool isSuccess(ErrorCode code)\<close> and
  \<^verbatim>\<open>constexpr bool isError(ErrorCode code)\<close>.\<close>

definition isSuccess :: "ErrorCode \<Rightarrow> bool" where
  "isSuccess code = (code = OK)"

definition isError :: "ErrorCode \<Rightarrow> bool" where
  "isError code = (code \<noteq> OK)"

section \<open>Result.h: the value-or-error container\<close>

text \<open>
  \<^verbatim>\<open>template<typename T, typename E = ErrorCode> class Result\<close> has three private
  members, \<^verbatim>\<open>T value_; E error_; bool hasValue_;\<close>. The error type only has to
  admit \<^verbatim>\<open>static_cast<E>(0)\<close> (class \<open>zero\<close>), the value type has to be
  default-constructible, because the error constructors value-initialise \<^verbatim>\<open>value_()\<close>
  (class \<open>default\<close>). Isabelle reserves names that end in an underscore, so the members
  are written \<open>value_m\<close>, \<open>error_m\<close> and \<open>hasValue_m\<close>.
\<close>

record ('t, 'e) Result =
  value_m :: 't
  error_m :: 'e
  hasValue_m :: bool

text \<open>\<^verbatim>\<open>explicit Result(const T& value)\<close> and \<^verbatim>\<open>explicit Result(T&& value)\<close>:
  \<^verbatim>\<open>value_(value), error_(static_cast<E>(0)), hasValue_(true)\<close>.\<close>

definition Result_from_value :: "'t \<Rightarrow> ('t, 'e::zero) Result" where
  "Result_from_value v = \<lparr> value_m = v, error_m = 0, hasValue_m = True \<rparr>"

text \<open>\<^verbatim>\<open>explicit Result(E error)\<close>: \<^verbatim>\<open>value_(), error_(error), hasValue_(false)\<close>.\<close>

definition Result_from_error :: "'e \<Rightarrow> ('t::default, 'e) Result" where
  "Result_from_error e = \<lparr> value_m = default, error_m = e, hasValue_m = False \<rparr>"

text \<open>\<^verbatim>\<open>static Result ok(const T& value)\<close> and \<^verbatim>\<open>static Result ok(T&& value)\<close>.\<close>

definition Result_ok :: "'t \<Rightarrow> ('t, 'e::zero) Result" where
  "Result_ok v = Result_from_value v"

text \<open>\<^verbatim>\<open>static Result error(E error)\<close>.\<close>

definition Result_error :: "'e \<Rightarrow> ('t::default, 'e) Result" where
  "Result_error e = Result_from_error e"

definition Result_isOk :: "('t, 'e) Result \<Rightarrow> bool" where
  "Result_isOk r = hasValue_m r"

definition Result_isError :: "('t, 'e) Result \<Rightarrow> bool" where
  "Result_isError r = (\<not> hasValue_m r)"

text \<open>\<^verbatim>\<open>explicit operator bool() const\<close>.\<close>

definition Result_operator_bool :: "('t, 'e) Result \<Rightarrow> bool" where
  "Result_operator_bool r = hasValue_m r"

text \<open>The three overloads of \<^verbatim>\<open>value()\<close> all return a reference to \<^verbatim>\<open>value_\<close>; none
  tests \<^verbatim>\<open>hasValue_\<close>. A Result is modelled as a value, so the accessor returns what the
  reference reads.\<close>

definition Result_value :: "('t, 'e) Result \<Rightarrow> 't" where
  "Result_value r = value_m r"

text \<open>\<^verbatim>\<open>E error() const\<close> returns \<^verbatim>\<open>error_\<close>; it does not test \<^verbatim>\<open>hasValue_\<close>.\<close>

definition Result_error_of :: "('t, 'e) Result \<Rightarrow> 'e" where
  "Result_error_of r = error_m r"

definition Result_valueOr :: "('t, 'e) Result \<Rightarrow> 't \<Rightarrow> 't" where
  "Result_valueOr r defaultValue = (if hasValue_m r then value_m r else defaultValue)"

text \<open>The tag constructors \<^verbatim>\<open>Result(SuccessTag, const T& value)\<close> and
  \<^verbatim>\<open>Result(ErrorTag, E error)\<close> initialise the members as the untagged ones do.\<close>

datatype SuccessTag = ok_tag

datatype ErrorTag = err_tag

definition Result_from_SuccessTag :: "SuccessTag \<Rightarrow> 't \<Rightarrow> ('t, 'e::zero) Result" where
  "Result_from_SuccessTag tag v = \<lparr> value_m = v, error_m = 0, hasValue_m = True \<rparr>"

definition Result_from_ErrorTag :: "ErrorTag \<Rightarrow> 'e \<Rightarrow> ('t::default, 'e) Result" where
  "Result_from_ErrorTag tag e = \<lparr> value_m = default, error_m = e, hasValue_m = False \<rparr>"

subsection \<open>Combinators\<close>

text \<open>
  The callable handed to \<^verbatim>\<open>map\<close> and \<^verbatim>\<open>andThen\<close> is any C++ callable, so it may have
  effects (a lambda that counts its calls, say). It is therefore a function that takes
  the program state and returns its result with the new state; the combinators thread
  that state. A callable without effects is \<open>\<lambda>x s. (g x, s)\<close>.

  \<^verbatim>\<open>
  auto map(F&& f) const -> Result<decltype(f(std::declval<T>())), E> {
      using ResultType = Result<decltype(f(std::declval<T>())), E>;
      if (hasValue_) { return ResultType::ok(f(value_)); }
      return ResultType::error(error_);
  }
  \<close>
\<close>

definition Result_map ::
  "('t \<Rightarrow> 's \<Rightarrow> 'u \<times> 's) \<Rightarrow> ('t, 'e) Result \<Rightarrow> 's \<Rightarrow> ('u::default, 'e::zero) Result \<times> 's" where
  "Result_map f r s =
     (if hasValue_m r then (case f (value_m r) s of (y, s') \<Rightarrow> (Result_ok y, s'))
      else (Result_error (error_m r), s))"

text \<open>
  \<^verbatim>\<open>
  auto andThen(F&& f) const -> decltype(f(std::declval<T>())) {
      using ResultType = decltype(f(std::declval<T>()));
      if (hasValue_) { return f(value_); }
      return ResultType::error(error_);
  }
  \<close>
  \<^verbatim>\<open>ResultType\<close> is whatever \<^verbatim>\<open>f\<close> returns: a value-carrying Result here, the void
  specialisation in \<open>Result_andThen_void\<close> below.
\<close>

definition Result_andThen ::
  "('t \<Rightarrow> 's \<Rightarrow> ('u::default, 'e) Result \<times> 's) \<Rightarrow> ('t, 'e) Result \<Rightarrow> 's \<Rightarrow> ('u, 'e) Result \<times> 's" where
  "Result_andThen f r s =
     (if hasValue_m r then f (value_m r) s else (Result_error (error_m r), s))"

subsection \<open>The specialisation for void\<close>

text \<open>\<^verbatim>\<open>template<typename E> class Result<void, E>\<close> has the members
  \<^verbatim>\<open>E error_; bool hasValue_;\<close> and no \<^verbatim>\<open>value()\<close>.\<close>

record 'e Result_void =
  void_error_m :: 'e
  void_hasValue_m :: bool

text \<open>\<^verbatim>\<open>Result()\<close> and \<^verbatim>\<open>explicit Result(SuccessTag)\<close>:
  \<^verbatim>\<open>error_(static_cast<E>(0)), hasValue_(true)\<close>.\<close>

definition Result_void_default :: "('e::zero) Result_void" where
  "Result_void_default = \<lparr> void_error_m = 0, void_hasValue_m = True \<rparr>"

definition Result_void_from_SuccessTag :: "SuccessTag \<Rightarrow> ('e::zero) Result_void" where
  "Result_void_from_SuccessTag tag = \<lparr> void_error_m = 0, void_hasValue_m = True \<rparr>"

text \<open>\<^verbatim>\<open>explicit Result(E error)\<close> and \<^verbatim>\<open>Result(ErrorTag, E error)\<close>:
  \<^verbatim>\<open>error_(error), hasValue_(false)\<close>.\<close>

definition Result_void_from_error :: "'e \<Rightarrow> 'e Result_void" where
  "Result_void_from_error e = \<lparr> void_error_m = e, void_hasValue_m = False \<rparr>"

definition Result_void_from_ErrorTag :: "ErrorTag \<Rightarrow> 'e \<Rightarrow> 'e Result_void" where
  "Result_void_from_ErrorTag tag e = \<lparr> void_error_m = e, void_hasValue_m = False \<rparr>"

definition Result_void_ok :: "('e::zero) Result_void" where
  "Result_void_ok = Result_void_default"

definition Result_void_error :: "'e \<Rightarrow> 'e Result_void" where
  "Result_void_error e = Result_void_from_error e"

definition Result_void_isOk :: "'e Result_void \<Rightarrow> bool" where
  "Result_void_isOk r = void_hasValue_m r"

definition Result_void_isError :: "'e Result_void \<Rightarrow> bool" where
  "Result_void_isError r = (\<not> void_hasValue_m r)"

definition Result_void_operator_bool :: "'e Result_void \<Rightarrow> bool" where
  "Result_void_operator_bool r = void_hasValue_m r"

definition Result_void_error_of :: "'e Result_void \<Rightarrow> 'e" where
  "Result_void_error_of r = void_error_m r"

text \<open>\<^verbatim>\<open>andThen\<close> with a callable that returns \<^verbatim>\<open>Result<void, E>\<close>:
  \<^verbatim>\<open>ResultType::error\<close> is the void specialisation's.\<close>

definition Result_andThen_void ::
  "('t \<Rightarrow> 's \<Rightarrow> 'e Result_void \<times> 's) \<Rightarrow> ('t, 'e) Result \<Rightarrow> 's \<Rightarrow> 'e Result_void \<times> 's" where
  "Result_andThen_void f r s =
     (if hasValue_m r then f (value_m r) s else (Result_void_error (error_m r), s))"

subsection \<open>Helper functions\<close>

text \<open>\<^verbatim>\<open>makeOk(T&& value)\<close>, \<^verbatim>\<open>makeOk()\<close> and \<^verbatim>\<open>makeError(E error)\<close>.\<close>

definition makeOk :: "'t \<Rightarrow> ('t, 'e::zero) Result" where
  "makeOk v = Result_ok v"

definition makeOk_void :: "('e::zero) Result_void" where
  "makeOk_void = Result_void_ok"

definition makeError :: "'e \<Rightarrow> ('t::default, 'e) Result" where
  "makeError e = Result_error e"

section \<open>LibraryCommon.h: the propagation macros\<close>

subsection \<open>RETURN\_IF\_ERROR\<close>

text \<open>
  \<^verbatim>\<open>
  #define RETURN_IF_ERROR(expr) \
      do { \
          auto _result = (expr); \
          if (!_result) { \
              return _result; \
          } \
      } while (0)
  \<close>
  The macro stands in the body of a function, so it is modelled with the rest of that
  body as a continuation: \<open>expr\<close> is the fallible expression, a computation on the program
  state; \<open>rest\<close> is what the enclosing function does after the macro. \<^verbatim>\<open>return _result;\<close>
  returns the object itself, so the enclosing function returns the type of \<^verbatim>\<open>_result\<close>,
  and \<open>rest\<close> returns that type too. \<^verbatim>\<open>!_result\<close> is the
  contextual conversion to \<^verbatim>\<open>bool\<close> of whichever specialisation \<^verbatim>\<open>_result\<close> has; the
  macro's text is the same for both, so the conversion is a parameter.
\<close>

definition RETURN_IF_ERROR ::
  "('r \<Rightarrow> bool) \<Rightarrow> ('s \<Rightarrow> 'r \<times> 's) \<Rightarrow> ('s \<Rightarrow> 'r \<times> 's) \<Rightarrow> 's \<Rightarrow> 'r \<times> 's" where
  "RETURN_IF_ERROR operator_bool expr rest s =
     (case expr s of (result, s') \<Rightarrow>
        if \<not> operator_bool result then (result, s') else rest s')"

subsection \<open>RETURN\_ERROR\_IF\<close>

text \<open>
  \<^verbatim>\<open>
  #define RETURN_ERROR_IF(condition, error) \
      do { \
          if (condition) { \
              return decltype(error)::error(error); \
          } \
      } while (0)
  \<close>
  A function-like macro is its parameter list and its replacement list, a sequence of
  preprocessing tokens. Expanding it replaces every token of the replacement list that
  is a parameter's name by the tokens of the matching argument; the other tokens stay
  (the replacement list has no \<^verbatim>\<open>#\<close> or \<^verbatim>\<open>##\<close>).
\<close>

type_synonym token = string

record macro =
  params :: "token list"
  replacement :: "token list"

definition subst_token :: "(token \<times> token list) list \<Rightarrow> token \<Rightarrow> token list" where
  "subst_token env t = (case map_of env t of Some arg \<Rightarrow> arg | None \<Rightarrow> [t])"

definition expand :: "macro \<Rightarrow> token list list \<Rightarrow> token list" where
  "expand m args = concat (map (subst_token (zip (params m) args)) (replacement m))"

definition RETURN_ERROR_IF :: macro where
  "RETURN_ERROR_IF =
     \<lparr> params = [''condition'', ''error''],
       replacement =
         [''do'', ''{'',
            ''if'', ''('', ''condition'', '')'', ''{'',
              ''return'', ''decltype'', ''('', ''error'', '')'', ''::'', ''error'',
                ''('', ''error'', '')'', '';'',
            ''}'',
          ''}'', ''while'', ''('', ''0'', '')''] \<rparr>"

section \<open>Instrumentation and example types\<close>

text \<open>
  The specification tests \<^verbatim>\<open>map\<close> and \<^verbatim>\<open>andThen\<close> by instrumenting the callable to
  record its call count. \<open>counted g\<close> is the callable that returns \<open>g x\<close> and adds one
  to a counter, the program state; \<open>tick e\<close> is the computation \<open>e\<close> with a counter of
  its evaluations beside its own state.
\<close>

definition counted :: "('a \<Rightarrow> 'b) \<Rightarrow> 'a \<Rightarrow> nat \<Rightarrow> 'b \<times> nat" where
  "counted g x n = (g x, Suc n)"

definition tick :: "('s \<Rightarrow> 'a \<times> 's) \<Rightarrow> nat \<times> 's \<Rightarrow> 'a \<times> (nat \<times> 's)" where
  "tick e = (\<lambda>(n, s). case e s of (a, s') \<Rightarrow> (a, (Suc n, s')))"

text \<open>Value-initialising an integer type gives zero. The examples below take a 32-bit
  integer as the value type \<^verbatim>\<open>T\<close>.\<close>

instantiation word :: (len) default
begin

definition default_word :: "'a word" where
  "default_word = 0"

instance ..

end

section \<open>Properties\<close>

lemmas ErrorCode_defs =
  OK_def SUCCESS_def UNKNOWN_ERROR_def NOT_INITIALIZED_def
  ALREADY_INITIALIZED_def INVALID_PARAMETER_def INVALID_STATE_def NOT_SUPPORTED_def
  NOT_IMPLEMENTED_def BUSY_def WOULD_BLOCK_def OUT_OF_MEMORY_def
  RESOURCE_EXHAUSTED_def RESOURCE_NOT_FOUND_def RESOURCE_LOCKED_def RESOURCE_UNAVAILABLE_def
  TIMEOUT_def MUTEX_ERROR_def SEMAPHORE_ERROR_def DEADLOCK_DETECTED_def
  QUEUE_FULL_def QUEUE_EMPTY_def IO_ERROR_def READ_ERROR_def
  WRITE_ERROR_def PERMISSION_DENIED_def DATA_NOT_READY_def DATA_CORRUPTED_def
  CRC_ERROR_def CHECKSUM_ERROR_def BUFFER_OVERFLOW_def BUFFER_UNDERFLOW_def
  INVALID_DATA_def DEVICE_NOT_FOUND_def DEVICE_ERROR_def DEVICE_BUSY_def
  DEVICE_DISCONNECTED_def HARDWARE_FAILURE_def COMMUNICATION_ERROR_def CONNECTION_FAILED_def
  CONNECTION_LOST_def CONNECTION_REFUSED_def PROTOCOL_ERROR_def SEND_FAILED_def
  RECEIVE_FAILED_def STORAGE_ERROR_def STORAGE_FULL_def FILE_NOT_FOUND_def
  FILE_EXISTS_def MOUNT_FAILED_def NETWORK_ERROR_def NETWORK_UNREACHABLE_def
  HOST_UNREACHABLE_def DNS_FAILED_def SSL_ERROR_def


lemmas Result_defs =
  Result_from_value_def Result_from_error_def Result_ok_def Result_error_def
  Result_isOk_def Result_isError_def Result_operator_bool_def Result_value_def
  Result_error_of_def

lemmas Result_void_defs =
  Result_void_default_def Result_void_from_error_def Result_void_ok_def
  Result_void_error_def Result_void_isOk_def Result_void_isError_def
  Result_void_operator_bool_def Result_void_error_of_def

subsection \<open>The container\<close>

text \<open>
  C1. Whatever the members of a Result hold, so in particular for every Result a
  constructor or an operation returns, exactly one of \<^verbatim>\<open>isOk()\<close> and \<^verbatim>\<open>isError()\<close> is
  true, and the conversion to \<^verbatim>\<open>bool\<close> is \<^verbatim>\<open>isOk()\<close>; the same for the void
  specialisation.
\<close>

theorem Result_exactly_one_outcome:
  "(Result_isOk r \<longleftrightarrow> \<not> Result_isError r)
   \<and> Result_operator_bool r = Result_isOk r
   \<and> (Result_void_isOk rv \<longleftrightarrow> \<not> Result_void_isError rv)
   \<and> Result_void_operator_bool rv = Result_void_isOk rv"
  by (simp add: Result_defs Result_void_defs)

text \<open>
  C4. For every value \<open>v\<close>, \<^verbatim>\<open>Result::ok(v)\<close> is a success and its \<^verbatim>\<open>value()\<close> is \<open>v\<close>.
\<close>

theorem Result_ok_roundtrip:
  "Result_isOk (Result_ok v) \<and> Result_value (Result_ok v) = v"
  by (simp add: Result_defs)

text \<open>
  C5. For every error identifier \<open>e\<close> other than the success identifier
  \<^verbatim>\<open>static_cast<E>(0)\<close>, \<^verbatim>\<open>Result::error(e)\<close> is an error and its \<^verbatim>\<open>error()\<close> is \<open>e\<close>, in
  the value-carrying Result and in the void specialisation.
\<close>

theorem Result_error_roundtrip:
  "e \<noteq> 0 \<Longrightarrow>
     Result_isError (Result_error e :: ('t::default, 'e::zero) Result)
     \<and> Result_error_of (Result_error e :: ('t, 'e) Result) = e
     \<and> Result_void_isError (Result_void_error e)
     \<and> Result_void_error_of (Result_void_error e) = e"
  by (simp add: Result_defs Result_void_defs)

text \<open>At \<^verbatim>\<open>ErrorCode::INVALID_PARAMETER\<close>, with a 32-bit integer as the value type.\<close>

theorem Result_error_roundtrip_witness:
  "INVALID_PARAMETER \<noteq> 0
   \<and> Result_isError (Result_error INVALID_PARAMETER :: (32 word, ErrorCode) Result)
   \<and> Result_error_of (Result_error INVALID_PARAMETER :: (32 word, ErrorCode) Result)
       = INVALID_PARAMETER
   \<and> Result_void_isError (Result_void_error INVALID_PARAMETER)
   \<and> Result_void_error_of (Result_void_error INVALID_PARAMETER) = INVALID_PARAMETER"
proof -
  have ne: "INVALID_PARAMETER \<noteq> 0"
    by (simp add: INVALID_PARAMETER_def)
  show ?thesis
    using ne Result_error_roundtrip [OF ne, where 't = "32 word"] by simp
qed

text \<open>
  C8. \<^verbatim>\<open>Result::error\<close> has no guard: applied to the success identifier
  \<^verbatim>\<open>static_cast<E>(0)\<close> it returns a Result that is an error, is not a success, and whose
  \<^verbatim>\<open>error()\<close> is that identifier, in both specialisations.
\<close>

theorem Result_error_of_success_identifier:
  "Result_isError (Result_error 0 :: ('t::default, 'e::zero) Result)
   \<and> \<not> Result_isOk (Result_error 0 :: ('t::default, 'e::zero) Result)
   \<and> Result_error_of (Result_error 0 :: ('t::default, 'e::zero) Result) = 0
   \<and> Result_void_isError (Result_void_error 0 :: 'e Result_void)
   \<and> \<not> Result_void_isOk (Result_void_error 0 :: 'e Result_void)
   \<and> Result_void_error_of (Result_void_error 0 :: 'e Result_void) = 0"
  by (simp add: Result_defs Result_void_defs)

text \<open>
  C10. Reading the wrong side of a value-carrying Result returns a member the constructor
  initialised: \<^verbatim>\<open>error()\<close> of a success, from \<^verbatim>\<open>ok\<close> or from either success constructor,
  is \<^verbatim>\<open>static_cast<E>(0)\<close>, and \<^verbatim>\<open>value()\<close> of an error, from \<^verbatim>\<open>error\<close> or from either
  error constructor, is the value-initialised \<^verbatim>\<open>T\<close>. Both accessors are total functions
  of the members; neither has a failing branch.
\<close>

theorem Result_wrong_side_access:
  "Result_error_of (Result_ok v :: ('t, 'e::zero) Result) = 0
   \<and> Result_error_of (Result_from_value v :: ('t, 'e::zero) Result) = 0
   \<and> Result_error_of (Result_from_SuccessTag tag v :: ('t, 'e::zero) Result) = 0
   \<and> Result_value (Result_error e :: ('u::default, 'e) Result) = default
   \<and> Result_value (Result_from_error e :: ('u::default, 'e) Result) = default
   \<and> Result_value (Result_from_ErrorTag etag e :: ('u::default, 'e) Result) = default"
  by (simp add: Result_defs Result_from_SuccessTag_def Result_from_ErrorTag_def)

subsection \<open>The combinators\<close>

text \<open>
  C2. For every callable \<open>f\<close> and every Result \<open>r\<close>: if \<open>r\<close> is a success holding \<open>v\<close>,
  \<^verbatim>\<open>r.map(f)\<close> is \<^verbatim>\<open>Result::ok(f(v))\<close>, with the effects of that one call of \<open>f\<close>; if \<open>r\<close> is
  an error, \<^verbatim>\<open>r.map(f)\<close> is a new Result with the same error identifier, and the program
  state is the one before the call whatever \<open>f\<close> is: \<open>f\<close> was not invoked.
\<close>

theorem Result_map_spec:
  "(Result_isOk r \<and> Result_value r = v \<longrightarrow>
      Result_map f r s = (Result_ok (fst (f v s)) :: ('u::default, 'e::zero) Result, snd (f v s)))
   \<and> (Result_isError r \<longrightarrow>
      Result_map f r s = (Result_error (Result_error_of r) :: ('u, 'e) Result, s))"
  by (simp add: Result_map_def Result_isOk_def Result_isError_def Result_value_def
      Result_error_of_def split: prod.split)

text \<open>With a callable that doubles and counts its calls: one call on \<^verbatim>\<open>ok(21)\<close>, none on
  \<^verbatim>\<open>error(ErrorCode::BUSY)\<close>.\<close>

theorem Result_map_spec_witness:
  "Result_map (counted (\<lambda>x. x * 2)) (Result_ok 21 :: (32 word, ErrorCode) Result) 0
     = (Result_ok 42 :: (32 word, ErrorCode) Result, 1)
   \<and> Result_map (counted (\<lambda>x. x * 2)) (Result_error BUSY :: (32 word, ErrorCode) Result) 0
     = (Result_error BUSY :: (32 word, ErrorCode) Result, 0)"
  using Result_map_spec [of "Result_ok 21 :: (32 word, ErrorCode) Result" 21
      "counted (\<lambda>x. x * 2)" 0]
    Result_map_spec [of "Result_error BUSY :: (32 word, ErrorCode) Result" 0
      "counted (\<lambda>x. x * 2)" 0]
  by (simp add: Result_defs counted_def)

text \<open>
  C3. For every callable \<open>f\<close> that returns a Result (value-carrying, or \<open>g\<close> returning
  the void specialisation) and every Result \<open>r\<close>: if \<open>r\<close> is a success holding \<open>v\<close>,
  \<^verbatim>\<open>r.andThen(f)\<close> is what \<open>f(v)\<close> returns, its error included, with the effects of that
  one call; if \<open>r\<close> is an error, the result is \<^verbatim>\<open>error\<close> of \<open>f\<close>'s return type applied to
  \<open>r\<close>'s identifier, and the program state is the one before the call: \<open>f\<close> was not
  invoked.
\<close>

theorem Result_andThen_spec:
  "(Result_isOk r \<and> Result_value r = v \<longrightarrow>
      Result_andThen f r s = f v s \<and> Result_andThen_void g r s = g v s)
   \<and> (Result_isError r \<longrightarrow>
      Result_andThen f r s = (Result_error (Result_error_of r), s)
      \<and> Result_andThen_void g r s = (Result_void_error (Result_error_of r), s))"
  by (simp add: Result_andThen_def Result_andThen_void_def Result_isOk_def Result_isError_def
      Result_value_def Result_error_of_def)

text \<open>With callables that count their calls and fail on zero: a success, the callable's
  own error, and an error passed on without a call.\<close>

theorem Result_andThen_spec_witness:
  "Result_andThen
      (counted (\<lambda>x. if x = 0 then Result_error INVALID_PARAMETER else Result_ok (100 div x)))
      (Result_ok 5 :: (32 word, ErrorCode) Result) 0
     = (Result_ok 20 :: (32 word, ErrorCode) Result, 1)
   \<and> Result_andThen
      (counted (\<lambda>x. if x = 0 then Result_error INVALID_PARAMETER else Result_ok (100 div x)))
      (Result_ok 0 :: (32 word, ErrorCode) Result) 0
     = (Result_error INVALID_PARAMETER :: (32 word, ErrorCode) Result, 1)
   \<and> Result_andThen
      (counted (\<lambda>x. if x = 0 then Result_error INVALID_PARAMETER else Result_ok (100 div x)))
      (Result_error TIMEOUT :: (32 word, ErrorCode) Result) 0
     = (Result_error TIMEOUT :: (32 word, ErrorCode) Result, 0)
   \<and> Result_andThen_void
      (counted (\<lambda>x. if x = 0 then Result_void_error INVALID_PARAMETER else Result_void_ok))
      (Result_ok 5 :: (32 word, ErrorCode) Result) 0
     = (Result_void_ok, 1)
   \<and> Result_andThen_void
      (counted (\<lambda>x. if x = 0 then Result_void_error INVALID_PARAMETER else Result_void_ok))
      (Result_error TIMEOUT :: (32 word, ErrorCode) Result) 0
     = (Result_void_error TIMEOUT, 0)"
  using
    Result_andThen_spec [of "Result_ok 5 :: (32 word, ErrorCode) Result" 5
      "counted (\<lambda>x. if x = 0 then Result_error INVALID_PARAMETER else Result_ok (100 div x))" 0
      "counted (\<lambda>x. if x = 0 then Result_void_error INVALID_PARAMETER else Result_void_ok)"]
    Result_andThen_spec [of "Result_ok 0 :: (32 word, ErrorCode) Result" 0
      "counted (\<lambda>x. if x = 0 then Result_error INVALID_PARAMETER else Result_ok (100 div x))" 0
      "counted (\<lambda>x. if x = 0 then Result_void_error INVALID_PARAMETER else Result_void_ok)"]
    Result_andThen_spec [of "Result_error TIMEOUT :: (32 word, ErrorCode) Result" 0
      "counted (\<lambda>x. if x = 0 then Result_error INVALID_PARAMETER else Result_ok (100 div x))" 0
      "counted (\<lambda>x. if x = 0 then Result_void_error INVALID_PARAMETER else Result_void_ok)"]
  by (simp add: Result_defs counted_def)

subsection \<open>The propagation macros\<close>

text \<open>
  C7. \<^verbatim>\<open>RETURN_IF_ERROR(expr)\<close>: if the Result of \<open>expr\<close> is an error, the enclosing
  function returns that Result, in the state \<open>expr\<close> left, and the rest of its body does
  not run; if it is a success, the rest of the body runs from the state \<open>expr\<close> left. In
  both cases the state is that of one evaluation of \<open>expr\<close>: with a counter of its
  evaluations, the counter goes up by one. The macro does so for the value-carrying
  Result and for the void specialisation.
\<close>

theorem RETURN_IF_ERROR_spec:
  "(Result_isError (fst (expr s)) \<longrightarrow>
      RETURN_IF_ERROR Result_operator_bool expr rest s = expr s)
   \<and> (Result_isOk (fst (expr s)) \<longrightarrow>
      RETURN_IF_ERROR Result_operator_bool expr rest s = rest (snd (expr s)))
   \<and> (Result_void_isError (fst (exprv sv)) \<longrightarrow>
      RETURN_IF_ERROR Result_void_operator_bool exprv restv sv = exprv sv)
   \<and> (Result_void_isOk (fst (exprv sv)) \<longrightarrow>
      RETURN_IF_ERROR Result_void_operator_bool exprv restv sv = restv (snd (exprv sv)))
   \<and> RETURN_IF_ERROR ob (tick e) rest' (n, s0) =
       (if \<not> ob (fst (e s0)) then (fst (e s0), (Suc n, snd (e s0)))
        else rest' (Suc n, snd (e s0)))"
  by (simp add: RETURN_IF_ERROR_def tick_def Result_isOk_def Result_isError_def
      Result_operator_bool_def Result_void_isOk_def Result_void_isError_def
      Result_void_operator_bool_def split: prod.split)

text \<open>An error and a success of each specialisation, each evaluated once.\<close>

theorem RETURN_IF_ERROR_spec_witness:
  "RETURN_IF_ERROR Result_operator_bool
      (tick (\<lambda>u. (Result_error TIMEOUT :: (32 word, ErrorCode) Result, u)))
      (\<lambda>s. (Result_ok 7, s)) (0, ())
     = (Result_error TIMEOUT, (1, ()))
   \<and> RETURN_IF_ERROR Result_operator_bool
      (tick (\<lambda>u. (Result_ok 3 :: (32 word, ErrorCode) Result, u)))
      (\<lambda>s. (Result_ok 7, s)) (0, ())
     = (Result_ok 7, (1, ()))
   \<and> RETURN_IF_ERROR Result_void_operator_bool
      (tick (\<lambda>u. (Result_void_error IO_ERROR, u)))
      (\<lambda>s. (Result_void_ok, s)) (0, ())
     = (Result_void_error IO_ERROR, (1, ()))
   \<and> RETURN_IF_ERROR Result_void_operator_bool
      (tick (\<lambda>u. (Result_void_ok :: ErrorCode Result_void, u)))
      (\<lambda>s. (Result_void_error BUSY, s)) (0, ())
     = (Result_void_error BUSY, (1, ()))"
  using
    RETURN_IF_ERROR_spec [of
      "tick (\<lambda>u. (Result_error TIMEOUT :: (32 word, ErrorCode) Result, u))" "(0, ())"
      "\<lambda>s. (Result_ok 7, s)"
      "tick (\<lambda>u. (Result_void_error IO_ERROR, u))" "(0, ())"
      "\<lambda>s. (Result_void_ok, s)"
      Result_operator_bool "\<lambda>u. (Result_error TIMEOUT :: (32 word, ErrorCode) Result, u)"
      "\<lambda>s. (Result_ok 7, s)" 0 "()"]
    RETURN_IF_ERROR_spec [of
      "tick (\<lambda>u. (Result_ok 3 :: (32 word, ErrorCode) Result, u))" "(0, ())"
      "\<lambda>s. (Result_ok 7, s)"
      "tick (\<lambda>u. (Result_void_ok :: ErrorCode Result_void, u))" "(0, ())"
      "\<lambda>s. (Result_void_error BUSY, s)"
      Result_void_operator_bool "\<lambda>u. (Result_void_ok :: ErrorCode Result_void, u)"
      "\<lambda>s. (Result_void_error BUSY, s)" 0 "()"]
  by (simp add: Result_defs Result_void_defs tick_def)

text \<open>
  The expansion of \<^verbatim>\<open>RETURN_ERROR_IF\<close> for any two arguments: the second argument stands
  in all three places where the replacement list has the token \<^verbatim>\<open>error\<close>.
\<close>

lemma expand_RETURN_ERROR_IF:
  "expand RETURN_ERROR_IF [condition, error] =
     [''do'', ''{'', ''if'', ''(''] @ condition @ ['')'', ''{'', ''return'', ''decltype'', ''('']
     @ error @ ['')'', ''::''] @ error @ [''(''] @ error
     @ ['')'', '';'', ''}'', ''}'', ''while'', ''('', ''0'', '')'']"
  by (simp add: expand_def RETURN_ERROR_IF_def subst_token_def)

text \<open>
  C6. \<^verbatim>\<open>RETURN_ERROR_IF(condition, error)\<close> is meant to return an error Result of the
  enclosing function's type when the condition holds. The use in the macro's own
  documentation, \<^verbatim>\<open>RETURN_ERROR_IF(x < 0, ErrorCode::INVALID_PARAMETER)\<close>, expands to a
  \<^verbatim>\<open>return\<close> statement that calls no function named \<^verbatim>\<open>error\<close>: the parameter's name
  captured the member's name, and the scope before it is the type of the identifier,
  not a Result.
\<close>

theorem RETURN_ERROR_IF_expansion:
  "expand RETURN_ERROR_IF
      [[''x'', ''<'', ''0''], [''ErrorCode'', ''::'', ''INVALID_PARAMETER'']] =
     [''do'', ''{'',
        ''if'', ''('', ''x'', ''<'', ''0'', '')'', ''{'',
          ''return'', ''decltype'', ''('', ''ErrorCode'', ''::'', ''INVALID_PARAMETER'', '')'',
            ''::'', ''ErrorCode'', ''::'', ''INVALID_PARAMETER'',
            ''('', ''ErrorCode'', ''::'', ''INVALID_PARAMETER'', '')'', '';'',
        ''}'',
      ''}'', ''while'', ''('', ''0'', '')'']
   \<and> ''error'' \<notin> set (expand RETURN_ERROR_IF
      [[''x'', ''<'', ''0''], [''ErrorCode'', ''::'', ''INVALID_PARAMETER'']])"
  by (simp add: expand_def RETURN_ERROR_IF_def subst_token_def)

subsection \<open>The labels of the error codes\<close>

lemma errorCodeToString_declared:
  "code \<in> set ErrorCode_enumerators \<Longrightarrow> errorCodeToString code \<noteq> []"
  unfolding ErrorCode_enumerators_def
  by (elim disjE | simp add: errorCodeToString_def ErrorCode_defs)+

lemma errorCodeToString_undeclared:
  "code \<notin> set ErrorCode_enumerators \<Longrightarrow> errorCodeToString code = ''Unknown error code''"
  by (simp add: ErrorCode_enumerators_def errorCodeToString_def ErrorCode_defs)

text \<open>
  C9. \<^verbatim>\<open>errorCodeToString\<close> returns a non-empty string for every enumerator of
  \<^verbatim>\<open>ErrorCode\<close>, and the string \<^verbatim>\<open>"Unknown error code"\<close> for every other 16-bit value
  of the type. It is a total function: the \<^verbatim>\<open>switch\<close> has a \<^verbatim>\<open>default\<close>.
\<close>

theorem errorCodeToString_total:
  "(code \<in> set ErrorCode_enumerators \<longrightarrow> errorCodeToString code \<noteq> [])
   \<and> (code \<notin> set ErrorCode_enumerators \<longrightarrow>
      errorCodeToString code = ''Unknown error code'')"
  using errorCodeToString_declared errorCodeToString_undeclared by blast

text \<open>At \<^verbatim>\<open>ErrorCode::TIMEOUT\<close> and at \<^verbatim>\<open>static_cast<ErrorCode>(9999)\<close>.\<close>

theorem errorCodeToString_total_witness:
  "TIMEOUT \<in> set ErrorCode_enumerators \<and> errorCodeToString TIMEOUT \<noteq> []
   \<and> 9999 \<notin> set ErrorCode_enumerators \<and> errorCodeToString 9999 = ''Unknown error code''"
proof -
  have a: "TIMEOUT \<in> set ErrorCode_enumerators"
    by (simp add: ErrorCode_enumerators_def)
  have b: "9999 \<notin> set ErrorCode_enumerators"
    by (simp add: ErrorCode_enumerators_def ErrorCode_defs)
  show ?thesis
    using a b errorCodeToString_total [of TIMEOUT] errorCodeToString_total [of 9999] by blast
qed

end
